theory Spec2Isabelle
  imports Complex_Main "HOL-Library.Sublist"
begin

section \<open>Data model\<close>

text \<open>
  The repository holds two near-identical pipelines: \<^verbatim>\<open>src/app.py\<close> (the Streamlit
  front end) and \<^verbatim>\<open>src/scrape_and_predict.py\<close> (the command line tool). Their
  extraction, scoring and ranking functions differ in a handful of constants and
  branches only, so each function that differs takes the pipeline as its first
  argument, and the theorems hold for both.

  Python's \<^verbatim>\<open>int\<close> is modelled by \<^typ>\<open>int\<close>, \<^verbatim>\<open>float\<close> by \<^typ>\<open>real\<close> (exact
  arithmetic: rounding, infinities and NaN of IEEE doubles are outside the model), and
  \<^verbatim>\<open>str\<close> by the list of its Unicode code points.
\<close>

datatype variant = App | Cli

type_synonym pystr = "nat list"

text \<open>An ASCII literal of the source as a list of code points.\<close>

definition lit :: "string \<Rightarrow> pystr" where
  "lit s = map of_char s"

record race_result =
  r_date :: pystr
  r_course :: pystr
  r_race_name :: pystr
  r_distance :: int
  r_track_type :: pystr
  r_finish :: int
  r_total_horses :: int
  r_time :: pystr
  r_odds :: real
  r_popularity :: int

record horse =
  h_number :: int
  h_gate :: int
  h_name :: pystr
  h_sex :: pystr
  h_age :: int
  h_jockey :: pystr
  h_weight_carry :: real
  h_trainer :: pystr
  h_horse_weight :: int
  h_odds :: real
  h_popularity :: int
  h_horse_id :: pystr
  h_results :: "race_result list"

record race_info =
  ri_race_id :: pystr
  ri_race_name :: pystr
  ri_race_number :: int
  ri_course :: pystr
  ri_distance :: int
  ri_track_type :: pystr
  ri_track_condition :: pystr
  ri_weather :: pystr
  ri_date :: pystr
  ri_start_time :: pystr

text \<open>
  The dataclass defaults: \<^verbatim>\<open>RaceResult()\<close>, \<^verbatim>\<open>Horse()\<close> and \<^verbatim>\<open>RaceInfo()\<close>.
  (The command line variant declares two more fields on \<^verbatim>\<open>RaceResult\<close> and one more
  on \<^verbatim>\<open>Horse\<close>, \<^verbatim>\<open>weight\<close> and \<^verbatim>\<open>weight_diff\<close>, which no function reads or writes.)
\<close>

definition RaceResult :: race_result where
  "RaceResult = \<lparr>r_date = [], r_course = [], r_race_name = [], r_distance = 0,
     r_track_type = [], r_finish = 0, r_total_horses = 0, r_time = [], r_odds = 0,
     r_popularity = 0\<rparr>"

definition Horse :: horse where
  "Horse = \<lparr>h_number = 0, h_gate = 0, h_name = [], h_sex = [], h_age = 0, h_jockey = [],
     h_weight_carry = 0, h_trainer = [], h_horse_weight = 0, h_odds = 0, h_popularity = 0,
     h_horse_id = [], h_results = []\<rparr>"

definition RaceInfo :: race_info where
  "RaceInfo = \<lparr>ri_race_id = [], ri_race_name = [], ri_race_number = 0, ri_course = [],
     ri_distance = 0, ri_track_type = [], ri_track_condition = [], ri_weather = [],
     ri_date = [], ri_start_time = []\<rparr>"

section \<open>Scoring engine: \<^verbatim>\<open>calculate_score\<close>\<close>

text \<open>The \<^verbatim>\<open>details\<close> dictionary, one entry per sub-score, and the returned dictionary.\<close>

record score_details =
  sd_recent :: real
  sd_basic :: real
  sd_distance :: real
  sd_course :: real
  sd_draw :: real
  sd_odds :: real
  sd_stability :: real
  sd_weight :: real

record score =
  s_total :: real
  s_details :: score_details

text \<open>
  The factors by which \<^verbatim>\<open>total_score\<close> accumulates the sub-scores. They are literals
  in the two files and are the only place where the two \<^verbatim>\<open>calculate_score\<close> differ.
\<close>

record factor_weights =
  w_recent :: real
  w_basic :: real
  w_distance :: real
  w_course :: real
  w_draw :: real
  w_odds :: real
  w_stability :: real
  w_weight :: real

definition preset :: "variant \<Rightarrow> factor_weights" where
  "preset v = (case v of
     App \<Rightarrow> \<lparr>w_recent = 0.40, w_basic = 0.15, w_distance = 0.11, w_course = 0.08,
              w_draw = 0.05, w_odds = 0.10, w_stability = 0.07, w_weight = 0.04\<rparr>
   | Cli \<Rightarrow> \<lparr>w_recent = 0.35, w_basic = 0.15, w_distance = 0.12, w_course = 0.08,
              w_draw = 0.08, w_odds = 0.10, w_stability = 0.07, w_weight = 0.05\<rparr>)"

text \<open>Recent form: \<^verbatim>\<open>max(0, 100 - (r.finish - 1) * 12)\<close>, an integer.\<close>

definition finish_score :: "race_result \<Rightarrow> int" where
  "finish_score r = max 0 (100 - (r_finish r - 1) * 12)"

definition recent_weights :: "real list" where
  "recent_weights = [0.35, 0.25, 0.2, 0.12, 0.08]"

text \<open>
  The loop \<^verbatim>\<open>for i, r in enumerate(results[:5]): if i < len(weights): ...\<close> adds one
  product per run; \<^verbatim>\<open>if results:\<close> is the test for a non-empty list.
\<close>

definition weighted_sum :: "race_result list \<Rightarrow> real" where
  "weighted_sum rs =
     sum_list (map (\<lambda>(i, r). real_of_int (finish_score r) * recent_weights ! i)
                (filter (\<lambda>(i, r). i < length recent_weights) (enumerate 0 rs)))"

definition recent_score :: "horse \<Rightarrow> real" where
  "recent_score h =
     (let results = h_results h in
      if results \<noteq> [] then weighted_sum (take 5 results) else 50)"

text \<open>Win and place rate; \<^verbatim>\<open>sum(1 for r in results if c)\<close> counts the runs with \<open>c\<close>.\<close>

definition places_of :: "race_result list \<Rightarrow> nat" where
  "places_of rs = length (filter (\<lambda>r. r_finish r \<le> 3) rs)"

definition basic_score :: "horse \<Rightarrow> real" where
  "basic_score h =
     (let results = h_results h in
      if results \<noteq> [] then
        (let wins = length (filter (\<lambda>r. r_finish r = 1) results);
             places = places_of results;
             win_rate = real wins / real (length results);
             place_rate = real places / real (length results)
         in win_rate * 50 + place_rate * 50)
      else 50)"

definition distance_score :: "horse \<Rightarrow> race_info \<Rightarrow> real" where
  "distance_score h ri =
     (let results = h_results h in
      if results \<noteq> [] \<and> ri_distance ri \<noteq> 0 then
        (let same_dist = filter (\<lambda>r. \<bar>r_distance r - ri_distance ri\<bar> \<le> 100) results in
         if same_dist \<noteq> [] then (real (places_of same_dist) / real (length same_dist)) * 100
         else 50)
      else 50)"

text \<open>\<^verbatim>\<open>race_info.course in r.course\<close> is the substring test on strings.\<close>

definition course_score :: "horse \<Rightarrow> race_info \<Rightarrow> real" where
  "course_score h ri =
     (let results = h_results h in
      if results \<noteq> [] \<and> ri_course ri \<noteq> [] then
        (let same_course = filter (\<lambda>r. sublist (ri_course ri) (r_course r)) results in
         if same_course \<noteq> [] then
           (real (places_of same_course) / real (length same_course)) * 100
         else 50)
      else 50)"

definition draw_score :: "horse \<Rightarrow> race_info \<Rightarrow> horse list \<Rightarrow> real" where
  "draw_score h ri all_horses =
     (let total = int (length all_horses) in
      if h_number h \<noteq> 0 \<and> total > 0 then
        (let position = real_of_int (h_number h - 1) / real_of_int (max (total - 1) 1);
             inner_bias = (if ri_distance ri \<le> 1400 then 0.2 else 0.1)
         in (1 - position * inner_bias) * 100)
      else 50)"

text \<open>\<^verbatim>\<open>if horse.odds and horse.odds > 0\<close>: a float is truthy when it is not zero.\<close>

definition odds_score :: "horse \<Rightarrow> real" where
  "odds_score h =
     (if h_odds h \<noteq> 0 \<and> h_odds h > 0 then max 0 (100 - ln (h_odds h) * 18) else 50)"

text \<open>
  \<^verbatim>\<open>statistics.stdev\<close>, the sample standard deviation. The library raises
  \<^verbatim>\<open>StatisticsError\<close> on fewer than two data points; its one call is behind the test
  \<^verbatim>\<open>len(finishes) > 1\<close>, which the model keeps.
\<close>

definition stdev :: "int list \<Rightarrow> real" where
  "stdev xs =
     (let n = length xs;
          m = real_of_int (sum_list xs) / real n
      in sqrt (sum_list (map (\<lambda>x. (real_of_int x - m)\<^sup>2) xs) / real (n - 1)))"

definition stability_score :: "horse \<Rightarrow> real" where
  "stability_score h =
     (let results = h_results h in
      if length results \<ge> 3 then
        (let finishes = map r_finish (take 10 results);
             std = (if length finishes > 1 then stdev finishes else 0)
         in max 0 (100 - std * 12))
      else 50)"

definition weight_score :: "horse \<Rightarrow> horse list \<Rightarrow> real" where
  "weight_score h all_horses =
     (let weights = map h_weight_carry (filter (\<lambda>x. h_weight_carry x > 0) all_horses) in
      if weights \<noteq> [] \<and> h_weight_carry h \<noteq> 0 then
        (let avg_weight = sum_list weights / real (length weights);
             diff = h_weight_carry h - avg_weight;
             weight_score = 50 - diff * 8
         in max 0 (min 100 weight_score))
      else 50)"

definition calculate_score :: "variant \<Rightarrow> horse \<Rightarrow> race_info \<Rightarrow> horse list \<Rightarrow> score" where
  "calculate_score v h ri all_horses =
     (let d = \<lparr>sd_recent = recent_score h, sd_basic = basic_score h,
               sd_distance = distance_score h ri, sd_course = course_score h ri,
               sd_draw = draw_score h ri all_horses, sd_odds = odds_score h,
               sd_stability = stability_score h, sd_weight = weight_score h all_horses\<rparr>;
          w = preset v
      in \<lparr>s_total = sd_recent d * w_recent w + sd_basic d * w_basic w
                    + sd_distance d * w_distance w + sd_course d * w_course w
                    + sd_draw d * w_draw w + sd_odds d * w_odds w
                    + sd_stability d * w_stability w + sd_weight d * w_weight w,
          s_details = d\<rparr>)"

text \<open>The interval every sub-score is meant to stay in.\<close>

definition in_range :: "real \<Rightarrow> bool" where
  "in_range x = (0 \<le> x \<and> x \<le> 100)"

section \<open>Ranking engine: \<^verbatim>\<open>predict\<close>\<close>

text \<open>
  The exceptions of the modelled code: \<^verbatim>\<open>min()\<close> and \<^verbatim>\<open>max()\<close> of an empty
  sequence, and \<^verbatim>\<open>int()\<close> and \<^verbatim>\<open>float()\<close> of a text they cannot read, raise
  \<^verbatim>\<open>ValueError\<close>; a float division by zero raises \<^verbatim>\<open>ZeroDivisionError\<close>.
\<close>

datatype error = ValueError | ZeroDivisionError

definition py_min :: "real list \<Rightarrow> error + real" where
  "py_min xs = (case xs of [] \<Rightarrow> Inl ValueError | x # ys \<Rightarrow> Inr (fold min ys x))"

definition py_max :: "real list \<Rightarrow> error + real" where
  "py_max xs = (case xs of [] \<Rightarrow> Inl ValueError | x # ys \<Rightarrow> Inr (fold max ys x))"

definition py_div :: "real \<Rightarrow> real \<Rightarrow> error + real" where
  "py_div a b = (if b = 0 then Inl ZeroDivisionError else Inr (a / b))"

text \<open>A loop that computes one value per element and stops at the first exception.\<close>

fun for_each :: "('a \<Rightarrow> error + 'b) \<Rightarrow> 'a list \<Rightarrow> error + 'b list" where
  "for_each f [] = Inr []"
| "for_each f (x # xs) =
     (case f x of
        Inl e \<Rightarrow> Inl e
      | Inr y \<Rightarrow> (case for_each f xs of Inl e \<Rightarrow> Inl e | Inr ys \<Rightarrow> Inr (y # ys)))"

text \<open>
  One dictionary of the \<^verbatim>\<open>predictions\<close> list. The keys \<^verbatim>\<open>norm_score\<close>,
  \<^verbatim>\<open>win_prob\<close>, \<^verbatim>\<open>rank\<close> and \<^verbatim>\<open>expected_value\<close> are absent until the two later
  loops assign them; the record holds 0 in their place until then, and every one of
  them is assigned before \<^verbatim>\<open>predict\<close> returns.
\<close>

record prediction =
  p_horse :: horse
  p_score :: real
  p_details :: score_details
  p_norm_score :: real
  p_win_prob :: real
  p_rank :: int
  p_expected_value :: real

definition new_prediction :: "variant \<Rightarrow> race_info \<Rightarrow> horse list \<Rightarrow> horse \<Rightarrow> prediction" where
  "new_prediction v ri horses h =
     (let score_data = calculate_score v h ri horses in
      \<lparr>p_horse = h, p_score = s_total score_data, p_details = s_details score_data,
       p_norm_score = 0, p_win_prob = 0, p_rank = 0, p_expected_value = 0\<rparr>)"

definition temperature :: real where
  "temperature = 0.3"

text \<open>
  The body of the first loop:
  \<^verbatim>\<open>norm = (p['score'] - min_s) / (max_s - min_s) if max_s > min_s else 0.5\<close>.
\<close>

definition set_norm_score :: "real \<Rightarrow> real \<Rightarrow> prediction \<Rightarrow> error + prediction" where
  "set_norm_score min_s max_s p =
     (case (if max_s > min_s then py_div (p_score p - min_s) (max_s - min_s) else Inr 0.5) of
        Inl e \<Rightarrow> Inl e
      | Inr norm_score \<Rightarrow> Inr (p\<lparr>p_norm_score := norm_score\<rparr>))"

text \<open>
  The body of the second loop, over \<^verbatim>\<open>enumerate(predictions)\<close>. The index \<open>i\<close> is
  below the length of \<^verbatim>\<open>exp_scores\<close>, which has one entry per prediction.
\<close>

definition set_win_prob :: "real list \<Rightarrow> real \<Rightarrow> nat \<times> prediction \<Rightarrow> error + prediction" where
  "set_win_prob exp_scores total_exp ip =
     (case ip of (i, p) \<Rightarrow>
        (case py_div (exp_scores ! i) total_exp of
           Inl e \<Rightarrow> Inl e
         | Inr win_prob \<Rightarrow>
             Inr (p\<lparr>p_win_prob := win_prob, p_rank := int i + 1,
                    p_expected_value :=
                      (if h_odds (p_horse p) \<noteq> 0 \<and> h_odds (p_horse p) > 0
                       then win_prob * h_odds (p_horse p) else 0)\<rparr>)))"

text \<open>
  The part of \<^verbatim>\<open>predict\<close> after the loop that scores the entrants: it works on the
  list of dictionaries and their \<^verbatim>\<open>score\<close> entries alone.

  \<^verbatim>\<open>predictions.sort(key=lambda x: x['score'], reverse=True)\<close> is a stable sort by
  descending score: elements with equal keys keep their order. \<^const>\<open>sort_key\<close> on the
  negated score is the same function.
\<close>

definition rank_predictions :: "prediction list \<Rightarrow> error + prediction list" where
  "rank_predictions predictions =
     (let predictions = sort_key (\<lambda>p. - p_score p) predictions;
          scores = map p_score predictions
      in case py_min scores of
           Inl e \<Rightarrow> Inl e
         | Inr min_s \<Rightarrow>
        (case py_max scores of
           Inl e \<Rightarrow> Inl e
         | Inr max_s \<Rightarrow>
        (case for_each (set_norm_score min_s max_s) predictions of
           Inl e \<Rightarrow> Inl e
         | Inr predictions \<Rightarrow>
             (let exp_scores = map (\<lambda>p. exp (p_norm_score p / temperature)) predictions;
                  total_exp = sum_list exp_scores
              in for_each (set_win_prob exp_scores total_exp) (enumerate 0 predictions)))))"

definition predict :: "variant \<Rightarrow> horse list \<Rightarrow> race_info \<Rightarrow> error + prediction list" where
  "predict v horses ri = rank_predictions (map (new_prediction v ri horses) horses)"

section \<open>Extraction\<close>

text \<open>
  Both extractors read a document through BeautifulSoup selectors and then work on the
  stripped texts of the selected elements. The selectors are library code; the model
  starts from what they return: for each row the texts (\<^verbatim>\<open>get_text(strip=True)\<close>)
  of the elements the code selects, \<open>None\<close> where \<^verbatim>\<open>select_one\<close> finds nothing.
\<close>

subsection \<open>The Python library\<close>

text \<open>
  What the extractors use of Python's built-ins depends on the Unicode character
  database and on the interpreter, so it is a parameter of the model, and every result
  holds for each value of it:
  \<^item> \<open>isdigit_char\<close>: the characters \<open>c\<close> for which \<^verbatim>\<open>c.isdigit()\<close> holds;
  \<^item> \<open>re_digit\<close>: the characters that the pattern \<^verbatim>\<open>\d\<close> matches;
  \<^item> \<open>py_int\<close>: \<^verbatim>\<open>int(text)\<close>, with \<open>None\<close> for \<^verbatim>\<open>ValueError\<close>;
  \<^item> \<open>py_float\<close>: \<^verbatim>\<open>float(text)\<close>, with \<open>None\<close> for \<^verbatim>\<open>ValueError\<close>.

  Nothing is assumed about how the four relate. In particular a text may pass
  \<^verbatim>\<open>isdigit()\<close> and still be rejected by \<^verbatim>\<open>int()\<close>, as the superscript two is, and
  as a text of more than 4300 digits is.
\<close>

record pylib =
  isdigit_char :: "nat \<Rightarrow> bool"
  re_digit :: "nat \<Rightarrow> bool"
  py_int :: "pystr \<Rightarrow> int option"
  py_float :: "pystr \<Rightarrow> real option"

text \<open>\<^verbatim>\<open>text.isdigit()\<close>: at least one character, and all of them digits.\<close>

definition isdigit :: "pylib \<Rightarrow> pystr \<Rightarrow> bool" where
  "isdigit L s = (s \<noteq> [] \<and> list_all (isdigit_char L) s)"

text \<open>
  The non-ASCII literals of the source: the sex marks (stallion, mare, gelding), the
  surface glyphs (turf, dirt, jump) and the two values of \<^verbatim>\<open>track_type\<close>.
\<close>

definition glyph_stallion :: nat where
  "glyph_stallion = 0x7261"

definition glyph_mare :: nat where
  "glyph_mare = 0x725D"

definition glyph_gelding :: nat where
  "glyph_gelding = 0x30BB"






text \<open>
  \<^verbatim>\<open>re.search\<close> for an alternation of single characters: the leftmost character of
  the text that is one of them.
\<close>

definition search_first :: "nat list \<Rightarrow> pystr \<Rightarrow> nat option" where
  "search_first alts s = find (\<lambda>c. c \<in> set alts) s"

text \<open>\<^verbatim>\<open>re.search(r'horse/(\d+)', href)\<close>: the digits after the leftmost match.\<close>

fun search_digits_after :: "pylib \<Rightarrow> pystr \<Rightarrow> pystr \<Rightarrow> pystr option" where
  "search_digits_after L pat [] = None"
| "search_digits_after L pat (c # cs) =
     (if prefix pat (c # cs) \<and> takeWhile (re_digit L) (drop (length pat) (c # cs)) \<noteq> []
      then Some (takeWhile (re_digit L) (drop (length pat) (c # cs)))
      else search_digits_after L pat cs)"

text \<open>\<^verbatim>\<open>re.search(r'(\d+)', text)\<close>: the first maximal run of digits.\<close>

definition search_digits :: "pylib \<Rightarrow> pystr \<Rightarrow> pystr option" where
  "search_digits L s =
     (let r = dropWhile (\<lambda>c. \<not> re_digit L c) s
      in if r = [] then None else Some (takeWhile (re_digit L) r))"


text \<open>\<^verbatim>\<open>re.match(r'^(\d{2}\.\d)$', text)\<close> on a stripped text.\<close>

definition weight_pattern :: "pylib \<Rightarrow> pystr \<Rightarrow> bool" where
  "weight_pattern L t =
     (length t = 4 \<and> re_digit L (t ! 0) \<and> re_digit L (t ! 1) \<and> t ! 2 = 0x2E
      \<and> re_digit L (t ! 3))"

subsection \<open>History extractor: \<^verbatim>\<open>parse_horse_history\<close>\<close>










subsection \<open>Entry extractor: \<^verbatim>\<open>parse_race_page\<close>\<close>

text \<open>
  What the selectors return for one \<^verbatim>\<open>tr.HorseList\<close> row: the cell whose class
  contains \<^verbatim>\<open>Waku\<close> (the text of its first \<^verbatim>\<open>span\<close> and its own text), the text of
  the cell whose class contains \<^verbatim>\<open>Umaban\<close>, the link inside \<^verbatim>\<open>span.HorseName\<close>
  (its \<^verbatim>\<open>title\<close> and \<^verbatim>\<open>href\<close> attributes, empty when missing, and its text), the
  text of \<^verbatim>\<open>td.Barei\<close>, the texts of all cells, the first link of \<^verbatim>\<open>td.Jockey\<close> and
  of \<^verbatim>\<open>td.Trainer\<close>, the odds span and the text of \<^verbatim>\<open>td.Popular_Ninki\<close>.

  \<^verbatim>\<open>parse_race_page\<close> also returns a \<^verbatim>\<open>RaceInfo\<close>, read from the page header
  independently of the rows; the model covers the list of entrants.
\<close>

record waku_cell =
  wk_span :: "pystr option"
  wk_text :: pystr

record name_link =
  a_title :: pystr
  a_text :: pystr
  a_href :: pystr

record entry_row =
  e_waku :: "waku_cell option"
  e_umaban :: "pystr option"
  e_horse_name :: "name_link option"
  e_barei :: "pystr option"
  e_cells :: "pystr list"
  e_jockey :: "pystr option option"
  e_trainer :: "pystr option option"
  e_odds :: "pystr option"
  e_ninki :: "pystr option"

text \<open>
  \<^verbatim>\<open>int(text)\<close> outside any \<^verbatim>\<open>try\<close>: a text that \<^verbatim>\<open>int()\<close> rejects raises
  \<^verbatim>\<open>ValueError\<close> out of \<^verbatim>\<open>parse_race_page\<close>.
\<close>

definition int_or_raise :: "pylib \<Rightarrow> pystr \<Rightarrow> error + int" where
  "int_or_raise L text = (case py_int L text of None \<Rightarrow> Inl ValueError | Some n \<Rightarrow> Inr n)"

definition float_or_raise :: "pylib \<Rightarrow> pystr \<Rightarrow> error + real" where
  "float_or_raise L text = (case py_float L text of None \<Rightarrow> Inl ValueError | Some x \<Rightarrow> Inr x)"

text \<open>Sequencing: the first exception ends the function.\<close>

definition and_then :: "error + 'a \<Rightarrow> ('a \<Rightarrow> error + 'b) \<Rightarrow> error + 'b" where
  "and_then m f = (case m of Inl e \<Rightarrow> Inl e | Inr x \<Rightarrow> f x)"

text \<open>
  The gate: \<^verbatim>\<open>int()\<close> of the span's text with a handler that keeps the default. The
  command line variant alone falls back to the text of the cell, behind
  \<^verbatim>\<open>isdigit()\<close> and without a handler.
\<close>

definition set_gate :: "pylib \<Rightarrow> variant \<Rightarrow> entry_row \<Rightarrow> horse \<Rightarrow> error + horse" where
  "set_gate L v row horse =
     (case e_waku row of
        None \<Rightarrow> Inr horse
      | Some waku_cell \<Rightarrow>
          (case wk_span waku_cell of
             Some t \<Rightarrow>
               (case py_int L t of Some n \<Rightarrow> Inr (horse\<lparr>h_gate := n\<rparr>) | None \<Rightarrow> Inr horse)
           | None \<Rightarrow>
               if v = Cli \<and> isdigit L (wk_text waku_cell)
               then and_then (int_or_raise L (wk_text waku_cell))
                      (\<lambda>n. Inr (horse\<lparr>h_gate := n\<rparr>))
               else Inr horse))"

text \<open>\<^verbatim>\<open>if text.isdigit(): horse.number = int(text)\<close>, without a handler.\<close>

definition set_number :: "pylib \<Rightarrow> entry_row \<Rightarrow> horse \<Rightarrow> error + horse" where
  "set_number L row horse =
     (case e_umaban row of
        None \<Rightarrow> Inr horse
      | Some text \<Rightarrow>
          if isdigit L text
          then and_then (int_or_raise L text) (\<lambda>n. Inr (horse\<lparr>h_number := n\<rparr>))
          else Inr horse)"

text \<open>\<^verbatim>\<open>horse_name_link.get('title', '') or horse_name_link.get_text(strip=True)\<close>.\<close>

definition set_name :: "pylib \<Rightarrow> entry_row \<Rightarrow> horse \<Rightarrow> horse" where
  "set_name L row horse =
     (case e_horse_name row of
        None \<Rightarrow> horse
      | Some a \<Rightarrow>
          (let horse = horse\<lparr>h_name := (if a_title a \<noteq> [] then a_title a else a_text a)\<rparr>
           in case search_digits_after L (lit ''horse/'') (a_href a) of
                Some d \<Rightarrow> horse\<lparr>h_horse_id := d\<rparr>
              | None \<Rightarrow> horse))"

text \<open>Sex and age; \<^verbatim>\<open>int(age_match.group(1))\<close> has no handler.\<close>

definition set_sex_age :: "pylib \<Rightarrow> entry_row \<Rightarrow> horse \<Rightarrow> error + horse" where
  "set_sex_age L row horse =
     (case e_barei row of
        None \<Rightarrow> Inr horse
      | Some text \<Rightarrow>
          (let horse = (case search_first [glyph_stallion, glyph_mare, glyph_gelding] text of
                          Some g \<Rightarrow> horse\<lparr>h_sex := [g]\<rparr>
                        | None \<Rightarrow> horse)
           in case search_digits L text of
                Some d \<Rightarrow> and_then (int_or_raise L d) (\<lambda>n. Inr (horse\<lparr>h_age := n\<rparr>))
              | None \<Rightarrow> Inr horse))"

text \<open>
  The weight to carry: the first cell whose text matches the pattern, and
  \<^verbatim>\<open>float()\<close> of it, without a handler.
\<close>

definition set_weight_carry :: "pylib \<Rightarrow> entry_row \<Rightarrow> horse \<Rightarrow> error + horse" where
  "set_weight_carry L row horse =
     (case find (weight_pattern L) (e_cells row) of
        Some t \<Rightarrow> and_then (float_or_raise L t) (\<lambda>x. Inr (horse\<lparr>h_weight_carry := x\<rparr>))
      | None \<Rightarrow> Inr horse)"

definition set_jockey :: "entry_row \<Rightarrow> horse \<Rightarrow> horse" where
  "set_jockey row horse =
     (case e_jockey row of Some (Some t) \<Rightarrow> horse\<lparr>h_jockey := t\<rparr> | _ \<Rightarrow> horse)"

definition set_trainer :: "entry_row \<Rightarrow> horse \<Rightarrow> horse" where
  "set_trainer row horse =
     (case e_trainer row of Some (Some t) \<Rightarrow> horse\<lparr>h_trainer := t\<rparr> | _ \<Rightarrow> horse)"

text \<open>The odds: \<^verbatim>\<open>float()\<close> with a handler that keeps the default.\<close>

definition set_odds :: "pylib \<Rightarrow> entry_row \<Rightarrow> horse \<Rightarrow> horse" where
  "set_odds L row horse =
     (case e_odds row of
        None \<Rightarrow> horse
      | Some odds_text \<Rightarrow>
          if odds_text \<noteq> lit ''---.-''
          then (case py_float L odds_text of Some x \<Rightarrow> horse\<lparr>h_odds := x\<rparr> | None \<Rightarrow> horse)
          else horse)"

text \<open>
  Only the command line variant reads the popularity rank, behind \<^verbatim>\<open>isdigit()\<close>
  and without a handler.
\<close>

definition set_popularity :: "pylib \<Rightarrow> variant \<Rightarrow> entry_row \<Rightarrow> horse \<Rightarrow> error + horse" where
  "set_popularity L v row horse =
     (if v = Cli then
        (case e_ninki row of
           None \<Rightarrow> Inr horse
         | Some text \<Rightarrow>
             if isdigit L text
             then and_then (int_or_raise L text) (\<lambda>n. Inr (horse\<lparr>h_popularity := n\<rparr>))
             else Inr horse)
      else Inr horse)"

text \<open>
  The body of the loop over the rows, up to the test that decides on \<^verbatim>\<open>append\<close>,
  in the order of the source.
\<close>

definition parse_entry :: "pylib \<Rightarrow> variant \<Rightarrow> entry_row \<Rightarrow> error + horse" where
  "parse_entry L v row =
     and_then (set_gate L v row Horse) (\<lambda>horse.
     and_then (set_number L row horse) (\<lambda>horse.
     and_then (set_sex_age L row (set_name L row horse)) (\<lambda>horse.
     and_then (set_weight_carry L row horse) (\<lambda>horse.
     set_popularity L v row (set_odds L row (set_trainer row (set_jockey row horse)))))))"

text \<open>
  The loop: an exception in a row ends \<^verbatim>\<open>parse_race_page\<close>; otherwise
  \<^verbatim>\<open>if horse.name and horse.number > 0: horses.append(horse)\<close>.
\<close>

fun horse_rows :: "pylib \<Rightarrow> variant \<Rightarrow> entry_row list \<Rightarrow> horse list \<Rightarrow> error + horse list" where
  "horse_rows L v [] horses = Inr horses"
| "horse_rows L v (row # rows) horses =
     (case parse_entry L v row of
        Inl e \<Rightarrow> Inl e
      | Inr horse \<Rightarrow>
          horse_rows L v rows
            (if h_name horse \<noteq> [] \<and> h_number horse > 0 then horses @ [horse] else horses))"

definition parse_race_page :: "pylib \<Rightarrow> variant \<Rightarrow> entry_row list \<Rightarrow> error + horse list" where
  "parse_race_page L v rows = horse_rows L v rows []"

section \<open>Auxiliary definitions\<close>

text \<open>
  The quantities of \<^const>\<open>rank_predictions\<close> in closed form, for the proofs below: the
  min-max normalisation, the sorted list, the softmax weight of a score, the sum of the
  weights, and the finished \<open>i\<close>-th dictionary.
\<close>

definition normalized :: "real \<Rightarrow> real \<Rightarrow> real \<Rightarrow> real" where
  "normalized min_s max_s s = (if max_s > min_s then (s - min_s) / (max_s - min_s) else 0.5)"

definition sorted_predictions :: "prediction list \<Rightarrow> prediction list" where
  "sorted_predictions ps = sort_key (\<lambda>p. - p_score p) ps"

definition softmax_weight :: "prediction list \<Rightarrow> real \<Rightarrow> real" where
  "softmax_weight ps s =
     (let scores = map p_score (sorted_predictions ps)
      in exp (normalized (Min (set scores)) (Max (set scores)) s / temperature))"

definition total_exp :: "prediction list \<Rightarrow> real" where
  "total_exp ps =
     sum_list (map (\<lambda>p. softmax_weight ps (p_score p)) (sorted_predictions ps))"

definition finished :: "prediction list \<Rightarrow> nat \<Rightarrow> prediction" where
  "finished ps i =
     (let p = sorted_predictions ps ! i;
          scores = map p_score (sorted_predictions ps);
          wp = softmax_weight ps (p_score p) / total_exp ps
      in p\<lparr>p_norm_score := normalized (Min (set scores)) (Max (set scores)) (p_score p),
            p_win_prob := wp, p_rank := int i + 1,
            p_expected_value := (if h_odds (p_horse p) > 0 then wp * h_odds (p_horse p) else 0)\<rparr>)"

text \<open>Concrete entrants and fields used as examples.\<close>

definition out_of_range_horse :: horse where
  "out_of_range_horse = Horse\<lparr>h_number := 12, h_odds := 1 / 2, h_results := replicate 5 RaceResult\<rparr>"

definition form_horse :: horse where
  "form_horse = Horse\<lparr>h_results := map (\<lambda>f. RaceResult\<lparr>r_finish := f\<rparr>) [1, 2, 1, 3, 2]\<rparr>"

definition inner_horse :: horse where
  "inner_horse = Horse\<lparr>h_number := 1, h_name := lit ''A''\<rparr>"

definition outer_horse :: horse where
  "outer_horse = Horse\<lparr>h_number := 2, h_name := lit ''B''\<rparr>"

definition two_horse_field :: "horse list" where
  "two_horse_field = [outer_horse, inner_horse]"

definition tied_field :: "horse list" where
  "tied_field = [Horse\<lparr>h_name := lit ''A''\<rparr>, Horse\<lparr>h_name := lit ''B''\<rparr>]"

subsection \<open>A sample of the Python library\<close>

text \<open>
  The examples need one concrete value of the library parameter. This one knows the
  ASCII digits and the full-width digits as decimal digits, and the superscript digits
  one, two and three as digits that are no decimal digits. Its \<^verbatim>\<open>int()\<close> reads an
  optional sign and decimal digits that single underscores may separate, and refuses more
  than 4300 digits; its \<^verbatim>\<open>float()\<close> reads a sign, decimal digits with an optional
  point, and an optional exponent. On texts over these characters and without
  surrounding whitespace it agrees with CPython 3.11, except that \<^verbatim>\<open>float()\<close> of
  \<^verbatim>\<open>inf\<close> and \<^verbatim>\<open>nan\<close> has no value in \<^typ>\<open>real\<close> and is left out.
\<close>

definition sample_decimal :: "nat \<Rightarrow> nat option" where
  "sample_decimal c =
     (if 0x30 \<le> c \<and> c \<le> 0x39 then Some (c - 0x30)
      else if 0xFF10 \<le> c \<and> c \<le> 0xFF19 then Some (c - 0xFF10)
      else None)"

definition sample_isdigit_char :: "nat \<Rightarrow> bool" where
  "sample_isdigit_char c = (c = 0xB2 \<or> c = 0xB3 \<or> c = 0xB9 \<or> sample_decimal c \<noteq> None)"

definition sample_re_digit :: "nat \<Rightarrow> bool" where
  "sample_re_digit c = (sample_decimal c \<noteq> None)"

text \<open>Digits that single underscores may separate, and their value.\<close>

definition sample_digit_part :: "pystr \<Rightarrow> bool" where
  "sample_digit_part s =
     (s \<noteq> [] \<and> sample_re_digit (hd s) \<and> sample_re_digit (last s)
      \<and> list_all (\<lambda>c. c = 0x5F \<or> sample_re_digit c) s \<and> \<not> sublist [0x5F, 0x5F] s)"

definition sample_digits :: "pystr \<Rightarrow> pystr" where
  "sample_digits s = filter sample_re_digit s"

definition sample_value :: "pystr \<Rightarrow> nat" where
  "sample_value s =
     foldl (\<lambda>n c. 10 * n + (case sample_decimal c of Some d \<Rightarrow> d | None \<Rightarrow> 0)) 0
       (sample_digits s)"

text \<open>An optional sign in front: whether it is a minus, and the rest.\<close>

definition sample_sign :: "pystr \<Rightarrow> bool \<times> pystr" where
  "sample_sign s =
     (case s of
        [] \<Rightarrow> (False, s)
      | c # r \<Rightarrow> if c = 0x2D then (True, r) else if c = 0x2B then (False, r) else (False, s))"

definition sample_int :: "pystr \<Rightarrow> int option" where
  "sample_int s =
     (case sample_sign s of
        (negative, body) \<Rightarrow>
          if sample_digit_part body \<and> length (sample_digits body) \<le> 4300
          then Some ((if negative then - 1 else 1) * int (sample_value body))
          else None)"

text \<open>
  The mantissa \<open>digits [. [digits]]\<close> or \<open>. digits\<close>, then an optional exponent
  with \<open>e\<close> or \<open>E\<close>.
\<close>

definition sample_mantissa :: "pystr \<Rightarrow> real option" where
  "sample_mantissa m =
     (let ip = takeWhile (\<lambda>c. c \<noteq> 0x2E) m; r = dropWhile (\<lambda>c. c \<noteq> 0x2E) m
      in if r = [] then (if sample_digit_part ip then Some (real (sample_value ip)) else None)
         else
           (let fp = tl r
            in if (ip = [] \<or> sample_digit_part ip) \<and> (fp = [] \<or> sample_digit_part fp)
                  \<and> \<not> (ip = [] \<and> fp = [])
               then Some (real (sample_value ip)
                          + real (sample_value fp) / 10 ^ length (sample_digits fp))
               else None))"

definition sample_float :: "pystr \<Rightarrow> real option" where
  "sample_float s =
     (case sample_sign s of
        (negative, body) \<Rightarrow>
          (let m = takeWhile (\<lambda>c. c \<noteq> 0x65 \<and> c \<noteq> 0x45) body;
               r = dropWhile (\<lambda>c. c \<noteq> 0x65 \<and> c \<noteq> 0x45) body;
               scale = (if r = [] then Some 1
                        else (case sample_sign (tl r) of
                                (down, ex) \<Rightarrow>
                                  if sample_digit_part ex
                                  then Some (if down then 1 / 10 ^ sample_value ex
                                             else 10 ^ sample_value ex)
                                  else None))
           in case (sample_mantissa m, scale) of
                (Some x, Some k) \<Rightarrow> Some ((if negative then - 1 else 1) * x * k)
              | _ \<Rightarrow> None))"

definition sample_lib :: pylib where
  "sample_lib = \<lparr>isdigit_char = sample_isdigit_char, re_digit = sample_re_digit,
                  py_int = sample_int, py_float = sample_float\<rparr>"

subsection \<open>Crafted documents\<close>



definition text_stopped :: pystr where
  "text_stopped = [0x4E2D, 0x6B62]"




text \<open>
  An entry row with every field present; the same row with program number 0, without a
  name link, and with a superscript two in the number cell.
\<close>

definition valid_row :: entry_row where
  "valid_row =
     \<lparr>e_waku = Some \<lparr>wk_span = Some (lit ''2''), wk_text = lit ''2''\<rparr>,
      e_umaban = Some (lit ''3''),
      e_horse_name = Some \<lparr>a_title = lit ''Alpha'', a_text = lit ''Alpha'',
                            a_href = lit ''https://db.netkeiba.com/horse/2019104567''\<rparr>,
      e_barei = Some (glyph_stallion # lit ''4''),
      e_cells = [lit ''2'', lit ''3'', lit ''Alpha'', glyph_stallion # lit ''4'', lit ''57.0'',
                 lit ''J'', lit ''T'', lit ''4.8'', lit ''2''],
      e_jockey = Some (Some (lit ''J'')), e_trainer = Some (Some (lit ''T'')),
      e_odds = Some (lit ''4.8''), e_ninki = Some (lit ''2'')\<rparr>"

definition zero_number_row :: entry_row where
  "zero_number_row = valid_row\<lparr>e_umaban := Some (lit ''0'')\<rparr>"

definition nameless_row :: entry_row where
  "nameless_row = valid_row\<lparr>e_horse_name := None\<rparr>"

definition superscript_row :: entry_row where
  "superscript_row = valid_row\<lparr>e_umaban := Some [0xB2]\<rparr>"

definition crafted_rows :: "entry_row list" where
  "crafted_rows = [zero_number_row, valid_row, nameless_row]"

section \<open>Properties of the scoring engine\<close>

subsection \<open>Bounds of the sub-scores\<close>

lemma finish_score_bounds: "1 \<le> r_finish r \<Longrightarrow> 0 \<le> finish_score r \<and> finish_score r \<le> 100"
  by (simp add: finish_score_def)

lemma short_list_shape:
  "length xs \<le> 5 \<Longrightarrow> xs = [] \<or> (\<exists>a. xs = [a]) \<or> (\<exists>a b. xs = [a, b]) \<or> (\<exists>a b c. xs = [a, b, c])
     \<or> (\<exists>a b c d. xs = [a, b, c, d]) \<or> (\<exists>a b c d e. xs = [a, b, c, d, e])"
  by (auto simp: le_Suc_eq length_Suc_conv numeral_eq_Suc)

lemma weighted_sum_bounds:
  assumes len: "length xs \<le> 5" and fin: "\<forall>r\<in>set xs. 1 \<le> r_finish r"
  shows "0 \<le> weighted_sum xs \<and> weighted_sum xs \<le> 100"
proof -
  have b: "0 \<le> real_of_int (finish_score r) \<and> real_of_int (finish_score r) \<le> 100"
    if "r \<in> set xs" for r
    using fin finish_score_bounds that by force
  from short_list_shape [OF len] consider
      "xs = []"
    | a where "xs = [a]"
    | a b where "xs = [a, b]"
    | a b c where "xs = [a, b, c]"
    | a b c d where "xs = [a, b, c, d]"
    | a b c d e where "xs = [a, b, c, d, e]"
    by blast
  then show ?thesis
  proof cases
    case 1
    then show ?thesis by (simp add: weighted_sum_def)
  next
    case 2
    with b [of a] show ?thesis by (simp add: weighted_sum_def recent_weights_def)
  next
    case 3
    with b [of a] b [of b] show ?thesis
      by (simp add: weighted_sum_def recent_weights_def)
  next
    case 4
    with b [of a] b [of b] b [of c] show ?thesis
      by (simp add: weighted_sum_def recent_weights_def)
  next
    case 5
    with b [of a] b [of b] b [of c] b [of d] show ?thesis
      by (simp add: weighted_sum_def recent_weights_def)
  next
    case 6
    with b [of a] b [of b] b [of c] b [of d] b [of e] show ?thesis
      by (simp add: weighted_sum_def recent_weights_def)
  qed
qed

lemma recent_score_bounds:
  "\<forall>r\<in>set (take 5 (h_results h)). 1 \<le> r_finish r \<Longrightarrow> 0 \<le> recent_score h \<and> recent_score h \<le> 100"
  using weighted_sum_bounds [of "take 5 (h_results h)"] by (simp add: recent_score_def Let_def)

lemma places_le: "places_of rs \<le> length rs"
  by (simp add: places_of_def)

lemma ratio_bounds: "a \<le> n \<Longrightarrow> 0 \<le> real a / real n \<and> real a / real n \<le> 1"
  by (cases "n = 0") (simp_all add: divide_le_eq)

lemma place_rate_bounds:
  "0 \<le> real (places_of rs) / real (length rs) * 100 \<and>
   real (places_of rs) / real (length rs) * 100 \<le> 100"
proof -
  define x where "x = real (places_of rs) / real (length rs)"
  have "0 \<le> x \<and> x \<le> 1" unfolding x_def by (rule ratio_bounds) (rule places_le)
  then have "0 \<le> x * 100 \<and> x * 100 \<le> 100" by simp
  then show ?thesis unfolding x_def .
qed

lemma basic_score_bounds: "0 \<le> basic_score h \<and> basic_score h \<le> 100"
proof (cases "h_results h = []")
  case True
  then show ?thesis by (simp add: basic_score_def)
next
  case False
  define x where "x = real (length (filter (\<lambda>r. r_finish r = 1) (h_results h))) / real (length (h_results h))"
  define y where "y = real (places_of (h_results h)) / real (length (h_results h))"
  have x: "0 \<le> x \<and> x \<le> 1" unfolding x_def by (rule ratio_bounds) simp
  have y: "0 \<le> y \<and> y \<le> 1" unfolding y_def by (rule ratio_bounds) (rule places_le)
  have "basic_score h = x * 50 + y * 50"
    using False by (simp add: basic_score_def Let_def x_def y_def)
  then show ?thesis using x y by simp
qed

lemma distance_score_bounds: "0 \<le> distance_score h ri \<and> distance_score h ri \<le> 100"
  unfolding distance_score_def Let_def using place_rate_bounds by (simp del: times_divide_eq_left)

lemma course_score_bounds: "0 \<le> course_score h ri \<and> course_score h ri \<le> 100"
  unfolding course_score_def Let_def using place_rate_bounds by (simp del: times_divide_eq_left)

lemma draw_score_bounds:
  assumes "h_number h = 0 \<or> (1 \<le> h_number h \<and> h_number h \<le> int (length all_horses))"
  shows "0 \<le> draw_score h ri all_horses \<and> draw_score h ri all_horses \<le> 100"
proof (cases "h_number h \<noteq> 0 \<and> int (length all_horses) > 0")
  case False
  then show ?thesis by (auto simp add: draw_score_def Let_def)
next
  case True
  define p where "p = real_of_int (h_number h - 1) / real_of_int (max (int (length all_horses) - 1) 1)"
  from True assms have n: "1 \<le> h_number h" "h_number h \<le> int (length all_horses)" by auto
  have p0: "0 \<le> p" unfolding p_def using n by simp
  have "h_number h - 1 \<le> max (int (length all_horses) - 1) 1" using n by simp
  then have "real_of_int (h_number h - 1) \<le> real_of_int (max (int (length all_horses) - 1) 1)"
    by (simp only: of_int_le_iff)
  moreover have "0 < real_of_int (max (int (length all_horses) - 1) 1)" by simp
  ultimately have p1: "p \<le> 1" unfolding p_def by (simp only: divide_le_eq_1_pos)
  have a: "0 \<le> (1 - p * b) * 100 \<and> (1 - p * b) * 100 \<le> 100" if "0 \<le> b" "b \<le> 1" for b :: real
  proof -
    have "0 \<le> p * b" using p0 that by simp
    moreover have "p * b \<le> 1 * 1" using p0 p1 that by (intro mult_mono) auto
    ultimately show ?thesis by simp
  qed
  have "draw_score h ri all_horses = (1 - p * (if ri_distance ri \<le> 1400 then 0.2 else 0.1)) * 100"
    using True by (simp add: draw_score_def Let_def p_def)
  then show ?thesis using a [of "0.2"] a [of "0.1"] by (simp split: if_splits)
qed

lemma odds_score_bounds:
  assumes "h_odds h \<le> 0 \<or> 1 \<le> h_odds h"
  shows "0 \<le> odds_score h \<and> odds_score h \<le> 100"
proof (cases "h_odds h > 0")
  case True
  with assms have "1 \<le> h_odds h" by simp
  then have "0 \<le> ln (h_odds h)" by simp
  then show ?thesis using True by (simp add: odds_score_def)
next
  case False
  then show ?thesis by (simp add: odds_score_def)
qed

lemma stdev_nonneg: "0 \<le> stdev xs"
  unfolding stdev_def Let_def
  by (intro real_sqrt_ge_zero divide_nonneg_nonneg sum_list_nonneg) auto

lemma stability_score_bounds: "0 \<le> stability_score h \<and> stability_score h \<le> 100"
  using stdev_nonneg [of "map r_finish (take 10 (h_results h))"]
  by (simp add: stability_score_def Let_def)

lemma weight_score_bounds: "0 \<le> weight_score h all_horses \<and> weight_score h all_horses \<le> 100"
  by (simp add: weight_score_def Let_def)

lemma details_simps:
  "sd_recent (s_details (calculate_score v h ri hs)) = recent_score h"
  "sd_basic (s_details (calculate_score v h ri hs)) = basic_score h"
  "sd_distance (s_details (calculate_score v h ri hs)) = distance_score h ri"
  "sd_course (s_details (calculate_score v h ri hs)) = course_score h ri"
  "sd_draw (s_details (calculate_score v h ri hs)) = draw_score h ri hs"
  "sd_odds (s_details (calculate_score v h ri hs)) = odds_score h"
  "sd_stability (s_details (calculate_score v h ri hs)) = stability_score h"
  "sd_weight (s_details (calculate_score v h ri hs)) = weight_score h hs"
  by (simp_all add: calculate_score_def Let_def)

lemma total_App:
  "s_total (calculate_score App h ri hs) =
     recent_score h * 0.40 + basic_score h * 0.15 + distance_score h ri * 0.11
     + course_score h ri * 0.08 + draw_score h ri hs * 0.05 + odds_score h * 0.10
     + stability_score h * 0.07 + weight_score h hs * 0.04"
  by (simp add: calculate_score_def Let_def preset_def)

lemma total_Cli:
  "s_total (calculate_score Cli h ri hs) =
     recent_score h * 0.35 + basic_score h * 0.15 + distance_score h ri * 0.12
     + course_score h ri * 0.08 + draw_score h ri hs * 0.08 + odds_score h * 0.10
     + stability_score h * 0.07 + weight_score h hs * 0.05"
  by (simp add: calculate_score_def Let_def preset_def)

lemma total_bounds:
  assumes "in_range (recent_score h)" "in_range (draw_score h ri hs)" "in_range (odds_score h)"
  shows "in_range (s_total (calculate_score v h ri hs))"
proof -
  note b = assms [unfolded in_range_def] basic_score_bounds [of h] distance_score_bounds [of h ri]
    course_score_bounds [of h ri] stability_score_bounds [of h] weight_score_bounds [of h hs]
  show ?thesis
  proof (cases v)
    case App
    have "0 \<le> s_total (calculate_score App h ri hs)" using b by (simp add: total_App)
    moreover have "s_total (calculate_score App h ri hs) \<le> 100" using b by (simp add: total_App)
    ultimately show ?thesis by (simp add: in_range_def App)
  next
    case Cli
    have "0 \<le> s_total (calculate_score Cli h ri hs)" using b by (simp add: total_Cli)
    moreover have "s_total (calculate_score Cli h ri hs) \<le> 100" using b by (simp add: total_Cli)
    ultimately show ?thesis by (simp add: in_range_def Cli)
  qed
qed

text \<open>
  Three of the sub-scores have no cap on one side. A run recorded with finish 0 scores
  112 instead of at most 100, a program number beyond the field size drives the
  post-position score below 0, and odds below 1 lift the odds score above 100. One
  entrant shows all three: five runs with finish 0, number 12 in a field of one, odds 0.5.
\<close>

theorem sub_scores_out_of_range:
  "sd_recent (s_details (calculate_score App out_of_range_horse RaceInfo [out_of_range_horse])) = 112
   \<and> sd_draw (s_details (calculate_score App out_of_range_horse RaceInfo [out_of_range_horse])) = - 120
   \<and> sd_odds (s_details (calculate_score App out_of_range_horse RaceInfo [out_of_range_horse])) > 100"
proof -
  have "ln (1 / 2 :: real) < 0" by simp
  then have "100 - ln (1 / 2 :: real) * 18 > 100" by (simp add: mult_less_0_iff)
  then have "odds_score out_of_range_horse > 100"
    by (simp add: odds_score_def out_of_range_horse_def Horse_def less_max_iff_disj)
  moreover have "recent_score out_of_range_horse = 112"
    by (simp add: recent_score_def out_of_range_horse_def Horse_def RaceResult_def numeral_eq_Suc
        weighted_sum_def recent_weights_def finish_score_def)
  moreover have "draw_score out_of_range_horse RaceInfo [out_of_range_horse] = - 120"
    by (simp add: draw_score_def out_of_range_horse_def Horse_def RaceInfo_def)
  ultimately show ?thesis by (simp add: details_simps)
qed

text \<open>
  C3, as the code has it. For every pipeline, race and field, and every entrant whose five
  most recent runs have finish at least 1, whose program number is unset (0) or between 1
  and the field size, and whose odds are unset (at most 0) or at least 1, each of the
  eight sub-scores lies in [0, 100], and so does the weighted composite.
\<close>

theorem calculate_score_in_range:
  assumes "\<forall>r\<in>set (take 5 (h_results h)). 1 \<le> r_finish r"
    and "h_number h = 0 \<or> (1 \<le> h_number h \<and> h_number h \<le> int (length all_horses))"
    and "h_odds h \<le> 0 \<or> 1 \<le> h_odds h"
  shows "in_range (sd_recent (s_details (calculate_score v h ri all_horses)))
    \<and> in_range (sd_basic (s_details (calculate_score v h ri all_horses)))
    \<and> in_range (sd_distance (s_details (calculate_score v h ri all_horses)))
    \<and> in_range (sd_course (s_details (calculate_score v h ri all_horses)))
    \<and> in_range (sd_draw (s_details (calculate_score v h ri all_horses)))
    \<and> in_range (sd_odds (s_details (calculate_score v h ri all_horses)))
    \<and> in_range (sd_stability (s_details (calculate_score v h ri all_horses)))
    \<and> in_range (sd_weight (s_details (calculate_score v h ri all_horses)))
    \<and> in_range (s_total (calculate_score v h ri all_horses))"
proof -
  have r: "in_range (recent_score h)"
    unfolding in_range_def using assms(1) by (rule recent_score_bounds)
  have d: "in_range (draw_score h ri all_horses)"
    unfolding in_range_def using assms(2) by (rule draw_score_bounds)
  have od: "in_range (odds_score h)"
    unfolding in_range_def using assms(3) by (rule odds_score_bounds)
  have t: "in_range (s_total (calculate_score v h ri all_horses))"
    using r d od by (rule total_bounds)
  show ?thesis
    unfolding details_simps
    using r d od t basic_score_bounds [of h] distance_score_bounds [of h ri]
      course_score_bounds [of h ri] stability_score_bounds [of h]
      weight_score_bounds [of h all_horses]
    by (simp add: in_range_def)
qed

theorem calculate_score_in_range_witness:
  "map r_finish (take 5 (h_results (form_horse\<lparr>h_number := 1, h_odds := 3\<rparr>))) = [1, 2, 1, 3, 2]
   \<and> in_range (sd_recent (s_details
         (calculate_score Cli (form_horse\<lparr>h_number := 1, h_odds := 3\<rparr>) RaceInfo two_horse_field)))
   \<and> in_range (sd_draw (s_details
         (calculate_score Cli (form_horse\<lparr>h_number := 1, h_odds := 3\<rparr>) RaceInfo two_horse_field)))
   \<and> in_range (sd_odds (s_details
         (calculate_score Cli (form_horse\<lparr>h_number := 1, h_odds := 3\<rparr>) RaceInfo two_horse_field)))
   \<and> in_range (s_total
         (calculate_score Cli (form_horse\<lparr>h_number := 1, h_odds := 3\<rparr>) RaceInfo two_horse_field))"
proof -
  let ?h = "form_horse\<lparr>h_number := 1, h_odds := 3\<rparr>"
  have a: "\<forall>r\<in>set (take 5 (h_results ?h)). 1 \<le> r_finish r"
    by (simp add: form_horse_def Horse_def RaceResult_def)
  have b: "h_number ?h = 0 \<or> (1 \<le> h_number ?h \<and> h_number ?h \<le> int (length two_horse_field))"
    by (simp add: two_horse_field_def)
  have c: "h_odds ?h \<le> 0 \<or> 1 \<le> h_odds ?h"
    by simp
  have d: "map r_finish (take 5 (h_results ?h)) = [1, 2, 1, 3, 2]"
    by (simp add: form_horse_def Horse_def RaceResult_def)
  show ?thesis
    using d calculate_score_in_range [OF a b c, of Cli RaceInfo] by simp
qed

subsection \<open>The odds-implied sub-score\<close>

text \<open>An entrant without posted odds keeps the neutral default 50, not 0.\<close>

theorem odds_unknown_scores_50:
  "h_odds Horse = 0 \<and> sd_odds (s_details (calculate_score App Horse RaceInfo [Horse])) = 50
   \<and> sd_odds (s_details (calculate_score App Horse RaceInfo [Horse])) \<noteq> 0"
  by (simp add: details_simps odds_score_def Horse_def)

text \<open>
  C4, as the code has it. With posted odds (odds > 0) the odds-implied sub-score is
  \<open>max 0 (100 - ln odds * 18)\<close>: 100 at odds 1 and 82 at odds \<open>e\<close>. With unknown
  odds (odds = 0) it is the default 50.
\<close>

theorem odds_implied_score:
  "(0 < h_odds h \<longrightarrow>
      sd_odds (s_details (calculate_score v h ri all_horses)) = max 0 (100 - ln (h_odds h) * 18))
   \<and> (h_odds h = 1 \<longrightarrow> sd_odds (s_details (calculate_score v h ri all_horses)) = 100)
   \<and> (h_odds h = exp 1 \<longrightarrow> sd_odds (s_details (calculate_score v h ri all_horses)) = 82)
   \<and> (h_odds h = 0 \<longrightarrow> sd_odds (s_details (calculate_score v h ri all_horses)) = 50)"
  by (simp add: details_simps odds_score_def)

theorem odds_implied_score_witness:
  "sd_odds (s_details (calculate_score App (Horse\<lparr>h_odds := 1\<rparr>) RaceInfo [])) = 100
   \<and> sd_odds (s_details (calculate_score App (Horse\<lparr>h_odds := exp 1\<rparr>) RaceInfo [])) = 82
   \<and> sd_odds (s_details (calculate_score App (Horse\<lparr>h_odds := 0\<rparr>) RaceInfo [])) = 50
   \<and> sd_odds (s_details (calculate_score Cli (Horse\<lparr>h_odds := 2\<rparr>) RaceInfo []))
       = max 0 (100 - ln 2 * 18)"
  using odds_implied_score [of "Horse\<lparr>h_odds := 1\<rparr>" App RaceInfo "[]"]
    odds_implied_score [of "Horse\<lparr>h_odds := exp 1\<rparr>" App RaceInfo "[]"]
    odds_implied_score [of "Horse\<lparr>h_odds := 0\<rparr>" App RaceInfo "[]"]
    odds_implied_score [of "Horse\<lparr>h_odds := 2\<rparr>" Cli RaceInfo "[]"]
  by simp

subsection \<open>The recent-form example\<close>

lemma recent_score_12132:
  assumes "map r_finish (h_results h) = [1, 2, 1, 3, 2]"
  shows "recent_score h = 100 * 0.35 + 88 * 0.25 + 100 * 0.2 + 76 * 0.12 + 88 * 0.08"
proof -
  from assms obtain a b c d e where rs: "h_results h = [a, b, c, d, e]"
    and f: "r_finish a = 1" "r_finish b = 2" "r_finish c = 1" "r_finish d = 3" "r_finish e = 2"
    by (auto simp: map_eq_Cons_conv)
  show ?thesis
    by (simp add: recent_score_def rs f weighted_sum_def recent_weights_def finish_score_def)
qed

text \<open>
  The weighted sum of 100, 88, 100, 76, 88 under the weights 0.35, 0.25, 0.2, 0.12, 0.08
  is 35 + 22 + 20 + 9.12 + 7.04 = 93.16, which is 0.8 away from 93.96.
\<close>

theorem recent_form_not_93_96:
  "map r_finish (h_results form_horse) = [1, 2, 1, 3, 2]
   \<and> sd_recent (s_details (calculate_score App form_horse RaceInfo [form_horse])) = 93.16
   \<and> \<bar>sd_recent (s_details (calculate_score App form_horse RaceInfo [form_horse])) - 93.96\<bar> = 0.8"
proof -
  have m: "map r_finish (h_results form_horse) = [1, 2, 1, 3, 2]"
    by (simp add: form_horse_def Horse_def RaceResult_def)
  show ?thesis using m recent_score_12132 [OF m] by (simp add: details_simps)
qed

text \<open>
  C10, as the code has it. For every pipeline, race and field, an entrant whose history is
  exactly five runs with finishes 1, 2, 1, 3, 2 (most recent first) has the recent-form
  sub-score \<open>100 * 0.35 + 88 * 0.25 + 100 * 0.2 + 76 * 0.12 + 88 * 0.08 = 93.16\<close>,
  whatever the other entrants are.
\<close>

theorem recent_form_example:
  assumes "map r_finish (h_results h) = [1, 2, 1, 3, 2]"
  shows "sd_recent (s_details (calculate_score v h ri all_horses))
           = 100 * 0.35 + 88 * 0.25 + 100 * 0.2 + 76 * 0.12 + 88 * 0.08
       \<and> sd_recent (s_details (calculate_score v h ri all_horses)) = 93.16"
  using recent_score_12132 [OF assms] by (simp add: details_simps)

theorem recent_form_example_witness:
  "map r_finish (h_results form_horse) = [1, 2, 1, 3, 2]
   \<and> sd_recent (s_details (calculate_score Cli form_horse RaceInfo [Horse, form_horse])) = 93.16"
proof -
  have m: "map r_finish (h_results form_horse) = [1, 2, 1, 3, 2]"
    by (simp add: form_horse_def Horse_def RaceResult_def)
  show ?thesis using m recent_form_example [OF m, of Cli RaceInfo "[Horse, form_horse]"] by simp
qed

section \<open>Properties of the ranking engine\<close>

subsection \<open>The result of \<^const>\<open>rank_predictions\<close> in closed form\<close>

lemma for_each_Inr:
  "(\<And>x. x \<in> set xs \<Longrightarrow> f x = Inr (g x)) \<Longrightarrow> for_each f xs = Inr (map g xs)"
  by (induction xs) simp_all

lemma py_min_Min: "xs \<noteq> [] \<Longrightarrow> py_min xs = Inr (Min (set xs))"
  by (cases xs) (simp_all add: py_min_def Min.set_eq_fold [symmetric])

lemma py_max_Max: "xs \<noteq> [] \<Longrightarrow> py_max xs = Inr (Max (set xs))"
  by (cases xs) (simp_all add: py_max_def Max.set_eq_fold [symmetric])

lemma map_enumerate_nth:
  "map F (enumerate 0 xs) = map (\<lambda>i. F (i, xs ! i)) [0..<length xs]"
  by (rule nth_equalityI) (simp_all add: nth_enumerate_eq)

lemma sum_list_pos_real:
  fixes f :: "'a \<Rightarrow> real"
  shows "xs \<noteq> [] \<Longrightarrow> (\<And>x. x \<in> set xs \<Longrightarrow> 0 < f x) \<Longrightarrow> 0 < sum_list (map f xs)"
proof (induction xs)
  case Nil
  then show ?case by simp
next
  case (Cons a xs)
  show ?case
  proof (cases "xs = []")
    case True
    then show ?thesis using Cons.prems(2) [of a] by simp
  next
    case False
    have "0 < f a" using Cons.prems(2) by simp
    moreover have "0 < sum_list (map f xs)" using Cons.IH [OF False] Cons.prems(2) by simp
    ultimately show ?thesis by simp
  qed
qed

lemma set_norm_score_Inr:
  "set_norm_score mn mx p = Inr (p\<lparr>p_norm_score := normalized mn mx (p_score p)\<rparr>)"
  by (simp add: set_norm_score_def normalized_def py_div_def)

lemma length_sorted_predictions: "length (sorted_predictions ps) = length ps"
  by (simp add: sorted_predictions_def)

lemma sorted_predictions_nonempty: "ps \<noteq> [] \<Longrightarrow> sorted_predictions ps \<noteq> []"
  using length_sorted_predictions [of ps] by auto

lemma total_exp_pos: "ps \<noteq> [] \<Longrightarrow> 0 < total_exp ps"
  unfolding total_exp_def
  by (rule sum_list_pos_real) (simp_all add: sorted_predictions_nonempty softmax_weight_def Let_def)

lemma rank_closed_form:
  assumes ne: "ps \<noteq> []"
  shows "rank_predictions ps = Inr (map (finished ps) [0..<length ps])"
proof -
  define S where "S = sorted_predictions ps"
  define mn where "mn = Min (set (map p_score S))"
  define mx where "mx = Max (set (map p_score S))"
  define S1 where "S1 = map (\<lambda>p. p\<lparr>p_norm_score := normalized mn mx (p_score p)\<rparr>) S"
  define E where "E = map (\<lambda>p. exp (p_norm_score p / temperature)) S1"
  have lenS: "length S = length ps" by (simp add: S_def sorted_predictions_def)
  have Sne: "map p_score S \<noteq> []" using ne lenS by auto
  have E_eq: "E = map (\<lambda>p. softmax_weight ps (p_score p)) S"
    by (simp add: E_def S1_def softmax_weight_def Let_def mn_def mx_def S_def o_def)
  have T: "sum_list E = total_exp ps" by (simp add: E_eq total_exp_def S_def)
  have Tpos: "sum_list E \<noteq> 0" using total_exp_pos [OF ne] T by simp
  have step1: "for_each (set_norm_score mn mx) S = Inr S1"
    unfolding S1_def by (rule for_each_Inr) (rule set_norm_score_Inr)
  have step2: "for_each (set_win_prob E (sum_list E)) (enumerate 0 S1)
      = Inr (map (\<lambda>ip. case ip of (i, p) \<Rightarrow> p\<lparr>p_win_prob := E ! i / sum_list E, p_rank := int i + 1,
                    p_expected_value :=
                      (if h_odds (p_horse p) \<noteq> 0 \<and> h_odds (p_horse p) > 0
                       then E ! i / sum_list E * h_odds (p_horse p) else 0)\<rparr>) (enumerate 0 S1))"
    by (rule for_each_Inr) (simp add: set_win_prob_def py_div_def Tpos split: prod.splits)
  have mn': "Min (p_score ` set S) = mn" and mx': "Max (p_score ` set S) = mx"
    by (simp_all add: mn_def mx_def)
  have p: "rank_predictions ps = for_each (set_win_prob E (sum_list E)) (enumerate 0 S1)"
    using Sne step1
    by (simp add: rank_predictions_def Let_def py_min_Min py_max_Max
        S_def [symmetric, unfolded sorted_predictions_def] mn' mx' E_def [symmetric])
  have "map (\<lambda>ip. case ip of (i, p) \<Rightarrow> p\<lparr>p_win_prob := E ! i / sum_list E, p_rank := int i + 1,
                    p_expected_value :=
                      (if h_odds (p_horse p) \<noteq> 0 \<and> h_odds (p_horse p) > 0
                       then E ! i / sum_list E * h_odds (p_horse p) else 0)\<rparr>) (enumerate 0 S1)
       = map (finished ps) [0..<length ps]"
    unfolding map_enumerate_nth
    by (rule nth_equalityI)
      (auto simp: S1_def lenS E_eq T [unfolded E_eq] finished_def Let_def S_def [symmetric]
        mn_def mx_def)
  with p step2 show ?thesis by simp
qed

lemma rank_empty: "rank_predictions [] = Inl ValueError"
  by (simp add: rank_predictions_def py_min_def)

lemma map_nth_fun: "map (\<lambda>i. F (xs ! i)) [0..<length xs] = map F xs"
  by (rule nth_equalityI) simp_all

lemma finished_fields:
  "p_horse (finished ps i) = p_horse (sorted_predictions ps ! i)"
  "p_score (finished ps i) = p_score (sorted_predictions ps ! i)"
  "p_details (finished ps i) = p_details (sorted_predictions ps ! i)"
  "p_rank (finished ps i) = int i + 1"
  "p_win_prob (finished ps i)
     = softmax_weight ps (p_score (sorted_predictions ps ! i)) / total_exp ps"
  "p_norm_score (finished ps i)
     = normalized (Min (set (map p_score (sorted_predictions ps))))
         (Max (set (map p_score (sorted_predictions ps))))
         (p_score (sorted_predictions ps ! i))"
  by (simp_all add: finished_def Let_def)

lemma map_finished_score:
  "map p_score (map (finished ps) [0..<length ps]) = map p_score (sorted_predictions ps)"
  using map_nth_fun [of p_score "sorted_predictions ps"]
  by (simp add: o_def finished_fields length_sorted_predictions)

lemma map_finished_horse:
  "map p_horse (map (finished ps) [0..<length ps]) = map p_horse (sorted_predictions ps)"
  using map_nth_fun [of p_horse "sorted_predictions ps"]
  by (simp add: o_def finished_fields length_sorted_predictions)

lemma new_prediction_fields:
  "p_horse (new_prediction v ri hs h) = h"
  "p_score (new_prediction v ri hs h) = s_total (calculate_score v h ri hs)"
  "p_details (new_prediction v ri hs h) = s_details (calculate_score v h ri hs)"
  by (simp_all add: new_prediction_def Let_def)

lemma predict_closed_form:
  assumes "hs \<noteq> []"
  shows "predict v hs ri
           = Inr (map (finished (map (new_prediction v ri hs) hs)) [0..<length hs])"
  using assms rank_closed_form [of "map (new_prediction v ri hs) hs"]
  by (simp add: predict_def)

subsection \<open>Order of the forecasts\<close>

lemma sorted_predictions_sorted:
  "sorted_wrt (\<ge>) (map p_score (sorted_predictions ps))"
proof -
  have "sorted (map (\<lambda>p. - p_score p) (sorted_predictions ps))"
    unfolding sorted_predictions_def by (rule sorted_sort_key)
  then show ?thesis by (simp add: sorted_map sorted_wrt_map)
qed

lemma sorted_predictions_stable:
  "filter (\<lambda>p. p_score p = k) (sorted_predictions ps) = filter (\<lambda>p. p_score p = k) ps"
proof -
  have "filter (\<lambda>p. p_score p = k) (sorted_predictions ps)
      = filter (\<lambda>p. - p_score p = - k) (sorted_predictions ps)"
    by simp
  also have "\<dots> = filter (\<lambda>p. - p_score p = - k) ps"
    unfolding sorted_predictions_def by (rule sort_key_stable)
  finally show ?thesis by simp
qed

lemma scored_horses_stable:
  "map p_horse (filter (\<lambda>p. p_score p = k) (sorted_predictions (map (new_prediction v ri hs) hs)))
     = filter (\<lambda>h. s_total (calculate_score v h ri hs) = k) hs"
  by (simp add: sorted_predictions_stable filter_map o_def new_prediction_fields)

lemma map_filter_cong2:
  "length xs = length ys \<Longrightarrow> map f xs = map f ys \<Longrightarrow> map g xs = map g ys \<Longrightarrow>
   map g (filter (\<lambda>x. P (f x)) xs) = map g (filter (\<lambda>x. P (f x)) ys)"
  by (induction xs ys rule: list_induct2) auto

text \<open>
  C9. The forecasts are in non-increasing order of composite score, and for every score
  value the entrants with that score appear in the forecasts in their input order: the
  sort is stable.
\<close>

theorem predict_sorted_stable:
  assumes "hs \<noteq> []"
  shows "\<exists>ps. predict v hs ri = Inr ps
           \<and> sorted_wrt (\<ge>) (map p_score ps)
           \<and> (\<forall>k. map p_horse (filter (\<lambda>p. p_score p = k) ps)
                    = filter (\<lambda>h. s_total (calculate_score v h ri hs) = k) hs)"
proof -
  let ?np = "map (new_prediction v ri hs) hs"
  let ?ps = "map (finished ?np) [0..<length ?np]"
  have len: "length ?ps = length (sorted_predictions ?np)"
    by (simp add: length_sorted_predictions)
  have srt: "sorted_wrt (\<ge>) (map p_score ?ps)"
    unfolding map_finished_score by (rule sorted_predictions_sorted)
  have stb: "map p_horse (filter (\<lambda>p. p_score p = k) ?ps)
                    = filter (\<lambda>h. s_total (calculate_score v h ri hs) = k) hs" for k
    using map_filter_cong2 [OF len map_finished_score map_finished_horse, of "\<lambda>s. s = k"]
    by (simp only: scored_horses_stable)
  show ?thesis
    using predict_closed_form [OF assms, of v ri] srt stb by simp
qed

subsection \<open>Degenerate fields\<close>

lemma tied_scores:
  assumes "\<forall>p\<in>set ps. p_score p = c" and ne: "ps \<noteq> []"
  shows "set (map p_score (sorted_predictions ps)) = {c}"
proof -
  from ne obtain p where p: "p \<in> set ps" by (cases ps) auto
  have "set (map p_score (sorted_predictions ps)) = p_score ` set ps"
    by (simp add: sorted_predictions_def)
  also have "\<dots> = {c}" using assms(1) p by auto
  finally show ?thesis .
qed

lemma tied_norm_scores:
  assumes ne: "ps \<noteq> []" and tie: "\<forall>p\<in>set ps. p_score p = c"
  shows "\<forall>q\<in>set (map (finished ps) [0..<length ps]). p_norm_score q = 0.5"
proof
  have nrm: "normalized (Min (set (map p_score (sorted_predictions ps))))
         (Max (set (map p_score (sorted_predictions ps)))) s = 0.5" for s
    by (simp add: tied_scores [OF tie ne] normalized_def del: set_map)
  fix q assume "q \<in> set (map (finished ps) [0..<length ps])"
  then obtain i where q: "q = finished ps i" by auto
  show "p_norm_score q = 0.5" unfolding q finished_fields by (rule nrm)
qed

lemma rank_no_zero_division: "rank_predictions ps \<noteq> Inl ZeroDivisionError"
  by (cases "ps = []") (simp_all add: rank_empty rank_closed_form)

text \<open>
  \<^const>\<open>predict\<close> has no branch for an empty list: \<^verbatim>\<open>min(scores)\<close> raises
  \<^verbatim>\<open>ValueError\<close>.
\<close>

theorem predict_empty_raises: "predict App [] RaceInfo = Inl ValueError"
  by (simp add: predict_def rank_empty)

text \<open>
  C2, as the code has it. Given zero entrants the ranking step raises \<^verbatim>\<open>ValueError\<close>;
  it returns no empty sequence. Given a non-empty list of scored entrants whose composite
  scores are all equal, it returns one forecast per entrant, each with the normalised
  score 0.5 of the branch \<^verbatim>\<open>max_s > min_s\<close>. Whatever the scores are, neither of its
  two divisions raises \<^verbatim>\<open>ZeroDivisionError\<close>.
\<close>

theorem predict_degenerate:
  "predict v [] ri = Inl ValueError
   \<and> rank_predictions [] = Inl ValueError
   \<and> (ps \<noteq> [] \<and> (\<forall>p\<in>set ps. p_score p = c) \<longrightarrow>
        (\<exists>qs. rank_predictions ps = Inr qs \<and> length qs = length ps
           \<and> (\<forall>q\<in>set qs. p_norm_score q = 0.5)))
   \<and> rank_predictions ps \<noteq> Inl ZeroDivisionError"
proof (intro conjI impI)
  show "predict v [] ri = Inl ValueError" by (simp add: predict_def rank_empty)
  show "rank_predictions [] = Inl ValueError" by (rule rank_empty)
  show "rank_predictions ps \<noteq> Inl ZeroDivisionError" by (rule rank_no_zero_division)
next
  assume a: "ps \<noteq> [] \<and> (\<forall>p\<in>set ps. p_score p = c)"
  then have ne: "ps \<noteq> []" and tie: "\<forall>p\<in>set ps. p_score p = c" by simp_all
  show "\<exists>qs. rank_predictions ps = Inr qs \<and> length qs = length ps
           \<and> (\<forall>q\<in>set qs. p_norm_score q = 0.5)"
    using rank_closed_form [OF ne] tied_norm_scores [OF ne tie] by simp
qed

subsection \<open>Examples\<close>

text \<open>
  Two fields of two entrants without history: in the first the program numbers 2 and 1
  give the composite scores 51.5 and 52.5 (post position), in the second both entrants
  score 50.
\<close>

lemma default_sub_scores:
  "h_results h = [] \<Longrightarrow> recent_score h = 50"
  "h_results h = [] \<Longrightarrow> basic_score h = 50"
  "h_results h = [] \<Longrightarrow> distance_score h ri = 50"
  "h_results h = [] \<Longrightarrow> course_score h ri = 50"
  "h_results h = [] \<Longrightarrow> stability_score h = 50"
  "h_odds h = 0 \<Longrightarrow> odds_score h = 50"
  "h_weight_carry h = 0 \<Longrightarrow> weight_score h hs = 50"
  "h_number h = 0 \<Longrightarrow> draw_score h ri hs = 50"
  by (simp_all add: recent_score_def basic_score_def distance_score_def course_score_def
      stability_score_def odds_score_def weight_score_def draw_score_def)

lemma total_simps:
  "s_total (calculate_score v h ri hs) =
     recent_score h * w_recent (preset v) + basic_score h * w_basic (preset v)
     + distance_score h ri * w_distance (preset v) + course_score h ri * w_course (preset v)
     + draw_score h ri hs * w_draw (preset v) + odds_score h * w_odds (preset v)
     + stability_score h * w_stability (preset v) + weight_score h hs * w_weight (preset v)"
  by (simp add: calculate_score_def Let_def)

lemma score_inner: "s_total (calculate_score App inner_horse RaceInfo two_horse_field) = 52.5"
  by (simp add: total_simps default_sub_scores inner_horse_def Horse_def preset_def
      draw_score_def two_horse_field_def RaceInfo_def)

lemma score_outer: "s_total (calculate_score App outer_horse RaceInfo two_horse_field) = 51.5"
  by (simp add: total_simps default_sub_scores outer_horse_def Horse_def preset_def
      draw_score_def two_horse_field_def RaceInfo_def)

lemma score_tied: "h \<in> set tied_field \<Longrightarrow> s_total (calculate_score v h RaceInfo tied_field) = 50"
  by (cases v) (auto simp: total_simps default_sub_scores tied_field_def Horse_def preset_def)

theorem predict_sorted_stable_witness:
  "(\<exists>ps. predict App two_horse_field RaceInfo = Inr ps
      \<and> sorted_wrt (\<ge>) (map p_score ps)
      \<and> map p_horse (filter (\<lambda>p. p_score p = 52.5) ps) = [inner_horse])
   \<and> (\<exists>ps. predict App tied_field RaceInfo = Inr ps
      \<and> map p_horse (filter (\<lambda>p. p_score p = 50) ps) = tied_field)"
proof
  have ne: "two_horse_field \<noteq> []" by (simp add: two_horse_field_def)
  have f: "filter (\<lambda>h. s_total (calculate_score App h RaceInfo two_horse_field) = 52.5) two_horse_field
      = [inner_horse]"
    using score_inner score_outer by (simp add: two_horse_field_def)
  from predict_sorted_stable [OF ne, of App RaceInfo] obtain ps
    where ps: "predict App two_horse_field RaceInfo = Inr ps"
      and srt: "sorted_wrt (\<ge>) (map p_score ps)"
      and stb: "\<forall>k. map p_horse (filter (\<lambda>p. p_score p = k) ps)
                    = filter (\<lambda>h. s_total (calculate_score App h RaceInfo two_horse_field) = k) two_horse_field"
    by blast
  from stb have "map p_horse (filter (\<lambda>p. p_score p = 52.5) ps)
      = filter (\<lambda>h. s_total (calculate_score App h RaceInfo two_horse_field) = 52.5) two_horse_field"
    by (rule spec)
  then have "map p_horse (filter (\<lambda>p. p_score p = 52.5) ps) = [inner_horse]"
    by (simp only: f)
  with ps srt show "\<exists>ps. predict App two_horse_field RaceInfo = Inr ps
      \<and> sorted_wrt (\<ge>) (map p_score ps)
      \<and> map p_horse (filter (\<lambda>p. p_score p = 52.5) ps) = [inner_horse]"
    by (intro exI [of _ ps] conjI)
next
  have ne: "tied_field \<noteq> []" by (simp add: tied_field_def)
  have f: "filter (\<lambda>h. s_total (calculate_score App h RaceInfo tied_field) = 50) tied_field
      = tied_field"
    by (simp add: score_tied)
  from predict_sorted_stable [OF ne, of App RaceInfo] obtain ps
    where ps: "predict App tied_field RaceInfo = Inr ps"
      and stb: "\<forall>k. map p_horse (filter (\<lambda>p. p_score p = k) ps)
                    = filter (\<lambda>h. s_total (calculate_score App h RaceInfo tied_field) = k) tied_field"
    by blast
  from stb have "map p_horse (filter (\<lambda>p. p_score p = 50) ps)
      = filter (\<lambda>h. s_total (calculate_score App h RaceInfo tied_field) = 50) tied_field"
    by (rule spec)
  then have "map p_horse (filter (\<lambda>p. p_score p = 50) ps) = tied_field"
    by (simp only: f)
  with ps show "\<exists>ps. predict App tied_field RaceInfo = Inr ps
      \<and> map p_horse (filter (\<lambda>p. p_score p = 50) ps) = tied_field"
    by (intro exI [of _ ps] conjI)
qed

theorem predict_degenerate_witness:
  "predict Cli [] RaceInfo = Inl ValueError
   \<and> (\<exists>qs. predict Cli tied_field RaceInfo = Inr qs \<and> length qs = 2
         \<and> p_norm_score (qs ! 0) = 1 / 2 \<and> p_norm_score (qs ! 1) = 1 / 2)"
proof -
  let ?ps = "map (new_prediction Cli RaceInfo tied_field) tied_field"
  have ne: "?ps \<noteq> []" by (simp add: tied_field_def)
  have tie: "\<forall>p\<in>set ?ps. p_score p = 50"
    by (auto simp: new_prediction_fields score_tied)
  from predict_degenerate [of Cli RaceInfo ?ps 50] ne tie obtain qs
    where e: "predict Cli [] RaceInfo = Inl ValueError"
      and qs: "rank_predictions ?ps = Inr qs" and len: "length qs = length ?ps"
      and eq: "\<forall>q\<in>set qs. p_norm_score q = 0.5"
    by blast
  from len obtain a b where ab: "qs = [a, b]"
    by (auto simp: tied_field_def length_Suc_conv)
  from eq have "p_norm_score (qs ! 0) = 1 / 2 \<and> p_norm_score (qs ! 1) = 1 / 2"
    by (simp add: ab)
  with e qs ab show ?thesis by (auto simp: predict_def)
qed

section \<open>Properties of the extractors\<close>

subsection \<open>The history extractor as a filter over the rows\<close>







subsection \<open>The sample library on the crafted documents\<close>

lemmas sample_simps = sample_lib_def sample_int_def sample_sign_def sample_digit_part_def
  sample_digits_def sample_value_def sample_decimal_def sample_re_digit_def
  sample_isdigit_char_def isdigit_def lit_def sublist_code

lemma sample_isdigit_examples:
  "isdigit sample_lib (lit ''0'')" "isdigit sample_lib (lit ''3'')" "isdigit sample_lib [0xB2]"
  "isdigit sample_lib [0xFF11]" "\<not> isdigit sample_lib text_stopped"
  by (simp_all add: sample_simps text_stopped_def)

lemma sample_int_examples:
  "py_int sample_lib (lit ''0'') = Some 0" "py_int sample_lib (lit ''3'') = Some 3"
  "py_int sample_lib [0xB2] = None" "py_int sample_lib [0xFF11] = Some 1"
  "py_int sample_lib (lit ''1600'') = Some 1600"
  by (simp_all add: sample_simps)






subsection \<open>Finishing positions of the returned runs\<close>




subsection \<open>The entry extractor\<close>

text \<open>
  When no row raises, the output is the parsed rows with a name and a positive number, in
  row order. Every exception of a row is a \<^verbatim>\<open>ValueError\<close>, and the first one ends the
  extractor.
\<close>

lemma and_then_simps [simp]:
  "and_then (Inl e) f = Inl e" "and_then (Inr x) f = f x"
  by (simp_all add: and_then_def)

lemma horse_rows_acc:
  "horse_rows L v rows acc
     = (case for_each (parse_entry L v) rows of
          Inl e \<Rightarrow> Inl e
        | Inr hs \<Rightarrow> Inr (acc @ filter (\<lambda>h. h_name h \<noteq> [] \<and> 1 \<le> h_number h) hs))"
  by (induction rows arbitrary: acc) (simp_all split: sum.splits)

lemma parse_race_page_filter:
  "parse_race_page L v rows
     = (case for_each (parse_entry L v) rows of
          Inl e \<Rightarrow> Inl e
        | Inr hs \<Rightarrow> Inr (filter (\<lambda>h. h_name h \<noteq> [] \<and> 1 \<le> h_number h) hs))"
  by (simp add: parse_race_page_def horse_rows_acc split: sum.splits)

lemma int_or_raise_error: "int_or_raise L t = Inl e \<Longrightarrow> e = ValueError"
  by (simp add: int_or_raise_def split: option.splits)

lemma float_or_raise_error: "float_or_raise L t = Inl e \<Longrightarrow> e = ValueError"
  by (simp add: float_or_raise_def split: option.splits)

lemma and_then_Inl:
  "and_then m f = Inl e \<Longrightarrow> m = Inl e \<or> (\<exists>x. m = Inr x \<and> f x = Inl e)"
  by (cases m) simp_all

lemma set_gate_error: "set_gate L v row h = Inl e \<Longrightarrow> e = ValueError"
  by (auto simp: set_gate_def split: option.splits if_splits
      dest!: and_then_Inl dest: int_or_raise_error)

lemma set_number_error: "set_number L row h = Inl e \<Longrightarrow> e = ValueError"
  by (auto simp: set_number_def split: option.splits if_splits
      dest!: and_then_Inl dest: int_or_raise_error)

lemma set_sex_age_error: "set_sex_age L row h = Inl e \<Longrightarrow> e = ValueError"
  by (auto simp: set_sex_age_def Let_def split: option.splits if_splits
      dest!: and_then_Inl dest: int_or_raise_error)

lemma set_weight_carry_error: "set_weight_carry L row h = Inl e \<Longrightarrow> e = ValueError"
  by (auto simp: set_weight_carry_def split: option.splits if_splits
      dest!: and_then_Inl dest: float_or_raise_error)

lemma set_popularity_error: "set_popularity L v row h = Inl e \<Longrightarrow> e = ValueError"
  by (auto simp: set_popularity_def split: option.splits if_splits
      dest!: and_then_Inl dest: int_or_raise_error)

lemma parse_entry_error: "parse_entry L v row = Inl e \<Longrightarrow> e = ValueError"
  unfolding parse_entry_def
  by (auto dest!: and_then_Inl
      dest: set_gate_error set_number_error set_sex_age_error set_weight_carry_error
        set_popularity_error)

lemma for_each_error:
  assumes "\<And>x e. f x = Inl e \<Longrightarrow> e = c" and "x \<in> set xs" and "f x = Inl c"
  shows "for_each f xs = Inl c"
  using assms(2,3)
proof (induction xs)
  case Nil
  then show ?case by simp
next
  case (Cons a xs)
  show ?case
  proof (cases "f a")
    case (Inl e)
    with assms(1) [of a e] show ?thesis by simp
  next
    case (Inr y)
    with Cons have "for_each f xs = Inl c" by auto
    with Inr show ?thesis by simp
  qed
qed

lemma number_rejected:
  assumes "e_umaban row = Some t" "isdigit L t" "py_int L t = None"
  shows "parse_entry L v row = Inl ValueError"
proof (cases "set_gate L v row Horse")
  case (Inl e)
  with set_gate_error [OF Inl] show ?thesis by (simp add: parse_entry_def)
next
  case (Inr h)
  have "set_number L row h = Inl ValueError"
    using assms by (simp add: set_number_def int_or_raise_def)
  with Inr show ?thesis by (simp add: parse_entry_def)
qed

lemma number_cell_raises:
  assumes "row \<in> set rows" "e_umaban row = Some t" "isdigit L t" "py_int L t = None"
  shows "parse_race_page L v rows = Inl ValueError"
proof -
  have "for_each (parse_entry L v) rows = Inl ValueError"
    using parse_entry_error assms(1) number_rejected [OF assms(2-4)]
    by (rule for_each_error)
  then show ?thesis by (simp add: parse_race_page_filter)
qed

text \<open>The rows of the crafted page, read with the sample library.\<close>

lemmas entry_simps = parse_entry_def set_gate_def set_number_def set_name_def set_sex_age_def
  set_weight_carry_def set_jockey_def set_trainer_def set_odds_def set_popularity_def
  int_or_raise_def float_or_raise_def search_first_def search_digits_def weight_pattern_def
  sample_float_def sample_mantissa_def glyph_stallion_def glyph_mare_def glyph_gelding_def
  Horse_def Let_def

lemma valid_row_entry:
  "\<exists>h. parse_entry sample_lib v valid_row = Inr h \<and> h_name h = lit ''Alpha'' \<and> h_number h = 3"
  by (cases v) (simp_all add: valid_row_def entry_simps sample_simps)

lemma zero_number_row_entry:
  "\<exists>h. parse_entry sample_lib v zero_number_row = Inr h \<and> h_number h = 0"
  by (cases v) (simp_all add: zero_number_row_def valid_row_def entry_simps sample_simps)

lemma nameless_row_entry:
  "\<exists>h. parse_entry sample_lib v nameless_row = Inr h \<and> h_name h = []"
  by (cases v) (simp_all add: nameless_row_def valid_row_def entry_simps sample_simps)

lemma crafted_rows_names:
  "map_sum id (map h_name) (parse_race_page sample_lib v crafted_rows) = Inr [lit ''Alpha'']"
proof -
  obtain h0 where h0: "parse_entry sample_lib v zero_number_row = Inr h0" "h_number h0 = 0"
    using zero_number_row_entry by blast
  obtain h1 where h1: "parse_entry sample_lib v valid_row = Inr h1" "h_name h1 = lit ''Alpha''"
      "h_number h1 = 3"
    using valid_row_entry by blast
  obtain h2 where h2: "parse_entry sample_lib v nameless_row = Inr h2" "h_name h2 = []"
    using nameless_row_entry by blast
  have "h_name h1 \<noteq> []" by (simp add: h1 lit_def)
  then show ?thesis
    by (simp add: parse_race_page_filter crafted_rows_def h0 h1 h2)
qed

text \<open>
  C6, and where the code departs from it. When the entry extractor returns, its output is
  exactly the parsed rows with a non-empty name and a program number of at least 1, in
  row order; the other rows are dropped. But a row is not always dropped silently: when
  the number cell of some row passes \<^verbatim>\<open>str.isdigit()\<close> and \<^verbatim>\<open>int()\<close> rejects it, the
  unguarded \<^verbatim>\<open>int(text)\<close> raises \<^verbatim>\<open>ValueError\<close> out of the extractor, and no entrant
  of the page is returned, the valid ones included.
\<close>

theorem parse_race_page_number_cell:
  "(\<forall>hs. parse_race_page L v rows = Inr hs \<longrightarrow>
       (\<exists>parsed. for_each (parse_entry L v) rows = Inr parsed
          \<and> hs = filter (\<lambda>h. h_name h \<noteq> [] \<and> 1 \<le> h_number h) parsed))
   \<and> ((\<exists>row\<in>set rows. \<exists>t. e_umaban row = Some t \<and> isdigit L t \<and> py_int L t = None)
        \<longrightarrow> parse_race_page L v rows = Inl ValueError)"
proof (intro conjI allI impI)
  fix hs assume "parse_race_page L v rows = Inr hs"
  then show "\<exists>parsed. for_each (parse_entry L v) rows = Inr parsed
          \<and> hs = filter (\<lambda>h. h_name h \<noteq> [] \<and> 1 \<le> h_number h) parsed"
    by (auto simp: parse_race_page_filter split: sum.splits)
next
  assume "\<exists>row\<in>set rows. \<exists>t. e_umaban row = Some t \<and> isdigit L t \<and> py_int L t = None"
  then obtain row t where "row \<in> set rows" "e_umaban row = Some t" "isdigit L t"
      "py_int L t = None"
    by blast
  then show "parse_race_page L v rows = Inl ValueError" by (rule number_cell_raises)
qed

text \<open>
  With the sample library: a row with program number 0 and a row without a name link are
  dropped and the valid row between them is returned, in both variants; a row with a
  superscript two in the number cell loses the page, the valid row before it included.
\<close>

theorem parse_race_page_number_cell_witness:
  "parse_race_page sample_lib App [valid_row, superscript_row] = Inl ValueError
   \<and> parse_race_page sample_lib Cli [valid_row, superscript_row] = Inl ValueError
   \<and> map_sum id (map h_name) (parse_race_page sample_lib App crafted_rows) = Inr [lit ''Alpha'']
   \<and> map_sum id (map h_name) (parse_race_page sample_lib Cli crafted_rows) = Inr [lit ''Alpha'']"
proof -
  have "\<exists>row\<in>set [valid_row, superscript_row]. \<exists>t. e_umaban row = Some t
          \<and> isdigit sample_lib t \<and> py_int sample_lib t = None"
    by (simp add: superscript_row_def valid_row_def sample_isdigit_examples sample_int_examples)
  with parse_race_page_number_cell [of sample_lib _ "[valid_row, superscript_row]"]
  have "parse_race_page sample_lib v [valid_row, superscript_row] = Inl ValueError" for v
    by blast
  then show ?thesis by (simp add: crafted_rows_names)
qed

end
